theory Spec2Isabelle
  imports Complex_Main
begin

section \<open>Data model (models.py)\<close>

text \<open>
  The SQLAlchemy models are embedded as records, one per mapped class, holding the
  columns the MRP routes read or write. Column names keep the source's spelling behind a
  short prefix for the class (\<open>c_\<close> Component, \<open>ht_\<close> HornType, \<open>htc_\<close> HornTypeComponent,
  \<open>o_\<close> Order, \<open>li_\<close> OrderLineItem, \<open>pc_\<close> ProductionConfig, \<open>mp_\<close> MRPPlan,
  \<open>it_\<close> InventoryTransaction), since record fields share one name space.

  \<^item> \<open>db.Integer\<close> columns are \<open>int\<close> (primary and foreign keys \<open>nat\<close>).
  \<^item> \<open>db.Float\<close> columns are \<open>real\<close>: the arithmetic of the routes is read over the
    exact reals, rounding of IEEE doubles is not modelled.
  \<^item> \<open>db.DateTime\<close> values are naive datetimes, embedded as the number of microseconds
    since a fixed epoch; a \<open>timedelta\<close> is a number of microseconds as well.
\<close>

type_synonym datetime = int

definition timedelta :: "int \<Rightarrow> int" where
  \<comment> \<open>\<open>timedelta(days=d)\<close>\<close>
  "timedelta d = d * 86400000000"

definition timedelta_days :: "int \<Rightarrow> int" where
  \<comment> \<open>the \<open>.days\<close> attribute of a timedelta: Python normalises a timedelta so that its
      seconds and microseconds are non-negative, hence \<open>.days\<close> is the floor\<close>
  "timedelta_days td = td div 86400000000"

record component =
  c_id :: nat
  c_current_inventory :: real
  c_min_stock_level :: real
  c_max_stock_level :: real
  c_lead_time_days :: int
  c_unit_cost :: real
  c_minimum_order_quantity :: real

record horn_type =
  ht_id :: nat

record horn_type_component =
  htc_id :: nat
  htc_horn_type_id :: nat
  htc_component_id :: nat
  htc_quantity_per_horn :: real

record order =
  o_id :: nat
  o_order_date :: "datetime option"
  o_deadline :: datetime

record order_line_item =
  li_id :: nat
  li_order_id :: nat
  li_horn_type_id :: nat
  li_quantity :: int

record production_config =
  pc_daily_production_capacity :: int
  pc_working_days_per_week :: int
  pc_max_inventory_days :: int
  pc_safety_stock_days :: int

record mrp_plan =
  mp_id :: nat
  mp_order_id :: nat
  mp_component_id :: nat
  mp_total_required :: real
  mp_current_inventory :: real
  mp_net_requirement :: real
  mp_order_quantity :: real
  mp_order_date :: datetime
  mp_expected_delivery :: datetime
  mp_estimated_cost :: real
  mp_status :: string

record inventory_transaction =
  it_id :: nat
  it_component_id :: nat
  it_transaction_type :: string
  it_quantity :: real
  it_balance_after :: real
  it_reference :: string
  it_notes :: string

text \<open>The database: one list of rows per table, in storage order.\<close>

record database =
  components :: "component list"
  horn_types :: "horn_type list"
  horn_type_components :: "horn_type_component list"
  orders :: "order list"
  order_line_items :: "order_line_item list"
  production_configs :: "production_config list"
  mrp_plans :: "mrp_plan list"
  inventory_transactions :: "inventory_transaction list"

section \<open>The SQLAlchemy session\<close>

text \<open>
  The routes work through \<open>db.session\<close>. Statements issued through the session act on
  the open transaction; only \<open>db.session.commit()\<close> makes them durable, and
  Flask-SQLAlchemy removes the session when the request ends, which rolls back whatever
  was not committed. The session is therefore a pair: the committed database and the
  database as seen inside the open transaction.
\<close>

record session =
  persisted :: database
  pending :: database

definition open_session :: "database \<Rightarrow> session" where
  "open_session db = \<lparr>persisted = db, pending = db\<rparr>"

definition session_commit :: "session \<Rightarrow> session" where
  "session_commit s = s\<lparr>persisted := pending s\<rparr>"

definition session_remove :: "session \<Rightarrow> session" where
  "session_remove s = s\<lparr>pending := persisted s\<rparr>"

text \<open>
  Primary keys are assigned when a new row is flushed. The model takes the successor of
  the largest key in the table, as an integer primary key does in SQLite.
\<close>

definition next_id :: "nat list \<Rightarrow> nat" where
  "next_id ids = Suc (fold max ids 0)"

fun insert_plans :: "nat \<Rightarrow> mrp_plan list \<Rightarrow> mrp_plan list" where
  "insert_plans n [] = []"
| "insert_plans n (p # ps) = p\<lparr>mp_id := n\<rparr> # insert_plans (Suc n) ps"

text \<open>Relationship attributes and primary-key lookups.\<close>

definition get_order :: "database \<Rightarrow> nat \<Rightarrow> order option" where
  "get_order db order_id = find (\<lambda>ord. o_id ord = order_id) (orders db)"

definition get_component :: "database \<Rightarrow> nat \<Rightarrow> component option" where
  "get_component db component_id = find (\<lambda>c. c_id c = component_id) (components db)"

definition get_mrp_plan :: "database \<Rightarrow> nat \<Rightarrow> mrp_plan option" where
  "get_mrp_plan db plan_id = find (\<lambda>p. mp_id p = plan_id) (mrp_plans db)"

definition line_items :: "database \<Rightarrow> order \<Rightarrow> order_line_item list" where
  \<comment> \<open>\<open>Order.line_items\<close>\<close>
  "line_items db ord = filter (\<lambda>li. li_order_id li = o_id ord) (order_line_items db)"

definition line_item_horn_type :: "database \<Rightarrow> order_line_item \<Rightarrow> horn_type option" where
  \<comment> \<open>\<open>OrderLineItem.horn_type\<close> (backref), \<open>None\<close> when the key dangles\<close>
  "line_item_horn_type db li = find (\<lambda>h. ht_id h = li_horn_type_id li) (horn_types db)"

definition bom_components :: "database \<Rightarrow> horn_type \<Rightarrow> horn_type_component list" where
  \<comment> \<open>\<open>HornType.bom_components\<close>\<close>
  "bom_components db h =
     filter (\<lambda>b. htc_horn_type_id b = ht_id h) (horn_type_components db)"

definition total_quantity :: "database \<Rightarrow> order \<Rightarrow> int" where
  \<comment> \<open>\<open>Order.total_quantity\<close>\<close>
  "total_quantity db ord = sum_list (map li_quantity (line_items db ord))"

section \<open>Working-day calendar (app.py, calculate_working_days)\<close>

definition calculate_working_days :: "datetime \<Rightarrow> datetime \<Rightarrow> int \<Rightarrow> int" where
  "calculate_working_days start_date end_date working_days_per_week =
     (let total_days = timedelta_days (end_date - start_date);
          weeks = total_days div 7;
          remaining_days = total_days mod 7;
          working_days = weeks * working_days_per_week;
          working_days = working_days + min remaining_days working_days_per_week
      in working_days)"

text \<open>
  The calendar as the specification words it: \<open>total_days\<close> is the whole number of days
  between start and end, truncated; \<open>full_weeks = total_days div 7\<close>,
  \<open>remainder = total_days mod 7\<close>, and the result is
  \<open>full_weeks \<times> W + min(remainder, W)\<close>.
\<close>

definition whole_days_between :: "datetime \<Rightarrow> datetime \<Rightarrow> int" where
  "whole_days_between start_date end_date =
     (if start_date \<le> end_date then (end_date - start_date) div 86400000000
      else - ((start_date - end_date) div 86400000000))"

definition spec_working_days :: "datetime \<Rightarrow> datetime \<Rightarrow> int \<Rightarrow> int" where
  "spec_working_days start_date end_date W =
     (let total_days = whole_days_between start_date end_date;
          full_weeks = total_days div 7;
          remainder = total_days mod 7
      in full_weeks * W + min remainder W)"

section \<open>MRP generation (app.py, generate_mrp)\<close>

subsection \<open>BOM explosion\<close>

text \<open>
  \<open>component_requirements\<close> is a \<open>defaultdict(float)\<close>: a dictionary in insertion order
  whose missing keys read as \<open>0.0\<close>. It is embedded as an association list with distinct
  keys; \<open>defaultdict_add d k v\<close> is the statement \<open>d[k] += v\<close>.
\<close>

fun defaultdict_add :: "(nat \<times> real) list \<Rightarrow> nat \<Rightarrow> real \<Rightarrow> (nat \<times> real) list" where
  "defaultdict_add [] k v = [(k, 0 + v)]"
| "defaultdict_add ((k', w) # d) k v =
     (if k' = k then (k', w + v) # d else (k', w) # defaultdict_add d k v)"

definition defaultdict_get :: "(nat \<times> real) list \<Rightarrow> nat \<Rightarrow> real" where
  "defaultdict_get d k = (case map_of d k of None \<Rightarrow> 0 | Some v \<Rightarrow> v)"

fun explode_bom_items ::
  "order_line_item \<Rightarrow> horn_type_component list \<Rightarrow> (nat \<times> real) list \<Rightarrow> (nat \<times> real) list" where
  "explode_bom_items line_item [] component_requirements = component_requirements"
| "explode_bom_items line_item (bom_item # rest) component_requirements =
     explode_bom_items line_item rest
       (defaultdict_add component_requirements (htc_component_id bom_item)
          (real_of_int (li_quantity line_item) * htc_quantity_per_horn bom_item))"

fun explode_line_items ::
  "database \<Rightarrow> order_line_item list \<Rightarrow> (nat \<times> real) list \<Rightarrow> (nat \<times> real) list" where
  "explode_line_items db [] component_requirements = component_requirements"
| "explode_line_items db (line_item # rest) component_requirements =
     (case line_item_horn_type db line_item of
        None \<Rightarrow> explode_line_items db rest component_requirements
      | Some horn_type \<Rightarrow>
          explode_line_items db rest
            (explode_bom_items line_item (bom_components db horn_type) component_requirements))"

subsection \<open>Net requirement, lot sizing and back-scheduling: the body of the component loop\<close>

definition plan_component ::
  "production_config \<Rightarrow> datetime \<Rightarrow> datetime \<Rightarrow> nat \<Rightarrow> (nat \<times> real) list \<Rightarrow> component \<Rightarrow> mrp_plan" where
  "plan_component config production_start now order_id component_requirements component =
     (let total_required = defaultdict_get component_requirements (c_id component);
          net_requirement = max 0 (total_required - c_current_inventory component);
          order_quantity =
            (if net_requirement > 0 then
               (if c_minimum_order_quantity component > 0
                then real_of_int \<lceil>net_requirement / c_minimum_order_quantity component\<rceil>
                       * c_minimum_order_quantity component
                else net_requirement)
             else 0);
          order_quantity =
            (if c_max_stock_level component > 0 then
               (let max_order = c_max_stock_level component - c_current_inventory component
                in if order_quantity > max_order then max_order else order_quantity)
             else order_quantity);
          days_before_production = c_lead_time_days component + pc_safety_stock_days config;
          order_date_calculated = production_start - timedelta days_before_production;
          order_date_calculated =
            (if order_date_calculated < now then now else order_date_calculated);
          expected_delivery = order_date_calculated + timedelta (c_lead_time_days component);
          estimated_cost = order_quantity * c_unit_cost component
      in \<lparr>mp_id = 0,
          mp_order_id = order_id,
          mp_component_id = c_id component,
          mp_total_required = total_required,
          mp_current_inventory = c_current_inventory component,
          mp_net_requirement = net_requirement,
          mp_order_quantity = order_quantity,
          mp_order_date = order_date_calculated,
          mp_expected_delivery = expected_delivery,
          mp_estimated_cost = estimated_cost,
          mp_status = ''planned''\<rparr>)"

subsection \<open>The route\<close>

datatype error =
    NotFound
  | ConfigMissing
  | EmptyDemand
  | InfeasibleSchedule
  | CapacityExceeded int int int int
  | ZeroDivisionError

record summary =
  sm_order_quantity :: int
  sm_working_days :: int
  sm_daily_production :: int
  sm_production_start :: datetime
  sm_total_components :: nat
  sm_components_to_order :: nat
  sm_total_estimated_cost :: real

type_synonym mrp_response = "error + summary \<times> mrp_plan list"

text \<open>
  \<open>generate_mrp order_id now s\<close> is the body of the route on the session \<open>s\<close>. The
  errors are the route's early returns: \<open>NotFound\<close> is \<open>get_or_404\<close>, \<open>ConfigMissing\<close>,
  \<open>EmptyDemand\<close> and \<open>InfeasibleSchedule\<close> are the three \<open>{'error': ...}, 400\<close> responses in
  the order of the source, \<open>CapacityExceeded daily_production capacity required_days
  available_days\<close> is the \<open>{'warning': ..., 'required_days': ..., 'available_days': ...},
  400\<close> response, and \<open>ZeroDivisionError\<close> is the exception Python raises when that
  response divides by a capacity of zero. Every call of \<open>datetime.utcnow()\<close> in one
  request reads the one instant \<open>now\<close>.
\<close>

definition generate_mrp :: "nat \<Rightarrow> datetime \<Rightarrow> session \<Rightarrow> mrp_response \<times> session" where
  "generate_mrp order_id now s =
     (case get_order (pending s) order_id of
        None \<Rightarrow> (Inl NotFound, s)
      | Some ord \<Rightarrow>
     (case production_configs (pending s) of
        [] \<Rightarrow> (Inl ConfigMissing, s)
      | config # _ \<Rightarrow>
     (let component_requirements =
            explode_line_items (pending s) (line_items (pending s) ord) []
      in if component_requirements = [] then (Inl EmptyDemand, s)
      else
       (let component_ids = map fst component_requirements;
            comps = filter (\<lambda>c. c_id c \<in> set component_ids) (components (pending s));
            s = s\<lparr>pending := (pending s)\<lparr>mrp_plans :=
                    filter (\<lambda>p. mp_order_id p \<noteq> order_id) (mrp_plans (pending s))\<rparr>\<rparr>;
            order_date = (case o_order_date ord of None \<Rightarrow> now | Some d \<Rightarrow> d);
            deadline = o_deadline ord;
            total_quantity = total_quantity (pending s) ord;
            working_days =
              calculate_working_days order_date deadline (pc_working_days_per_week config)
        in if working_days \<le> 0 then (Inl InfeasibleSchedule, s)
        else
         (let daily_production = \<lceil>real_of_int total_quantity / real_of_int working_days\<rceil>
          in if daily_production > pc_daily_production_capacity config then
               (if pc_daily_production_capacity config = 0 then (Inl ZeroDivisionError, s)
                else
                  (Inl (CapacityExceeded daily_production (pc_daily_production_capacity config)
                     \<lceil>real_of_int total_quantity
                        / real_of_int (pc_daily_production_capacity config)\<rceil>
                     working_days), s))
          else
           (let production_start = order_date + timedelta (pc_safety_stock_days config);
                new_plans =
                  map (plan_component config production_start now order_id component_requirements)
                    comps;
                plans = insert_plans (next_id (map mp_id (mrp_plans (pending s)))) new_plans;
                s = s\<lparr>pending := (pending s)\<lparr>mrp_plans := mrp_plans (pending s) @ plans\<rparr>\<rparr>;
                s = session_commit s;
                total_cost = sum_list (map mp_estimated_cost plans);
                components_to_order = length (filter (\<lambda>plan. mp_order_quantity plan > 0) plans)
            in (Inr (\<lparr>sm_order_quantity = total_quantity,
                       sm_working_days = working_days,
                       sm_daily_production = daily_production,
                       sm_production_start = production_start,
                       sm_total_components = length comps,
                       sm_components_to_order = components_to_order,
                       sm_total_estimated_cost = total_cost\<rparr>, plans), s)))))))"

definition request_generate_mrp :: "nat \<Rightarrow> datetime \<Rightarrow> database \<Rightarrow> mrp_response \<times> database" where
  \<comment> \<open>one request: open the session, run the route, remove the session\<close>
  "request_generate_mrp order_id now db =
     (let (response, s) = generate_mrp order_id now (open_session db)
      in (response, persisted (session_remove s)))"

section \<open>Status update (app.py, update_mrp_status)\<close>






section \<open>Observations and the specification's words\<close>

definition get_mrp_plans :: "database \<Rightarrow> nat \<Rightarrow> mrp_plan list" where
  \<comment> \<open>the query of the route \<open>get_mrp_plans\<close>: \<open>MRPPlan.query.filter_by(order_id=order_id).all()\<close>\<close>
  "get_mrp_plans db order_id = filter (\<lambda>p. mp_order_id p = order_id) (mrp_plans db)"

definition line_item_bom :: "database \<Rightarrow> order_line_item \<Rightarrow> horn_type_component list" where
  \<comment> \<open>the BOM entries of the line item's product type\<close>
  "line_item_bom db li =
     (case line_item_horn_type db li of None \<Rightarrow> [] | Some h \<Rightarrow> bom_components db h)"

definition bom_quantity_per_unit :: "horn_type_component list \<Rightarrow> nat \<Rightarrow> real" where
  \<comment> \<open>the component's quantity per unit in a BOM: the entry's \<open>quantity_per_horn\<close> (a BOM
      holds at most one entry per component, see \<open>add_component_to_horn_type\<close>), zero when
      the BOM does not list the component\<close>
  "bom_quantity_per_unit bom c =
     sum_list (map htc_quantity_per_horn (filter (\<lambda>b. htc_component_id b = c) bom))"

definition aggregate_requirement :: "database \<Rightarrow> order_line_item list \<Rightarrow> nat \<Rightarrow> real" where
  \<comment> \<open>the specification's sum over line items of quantity times quantity per unit\<close>
  "aggregate_requirement db lis c =
     (\<Sum>li\<leftarrow>lis. real_of_int (li_quantity li) * bom_quantity_per_unit (line_item_bom db li) c)"

section \<open>Example databases\<close>

text \<open>
  Product type 1 needs two of component 1 per unit, product type 2 needs one; order 1
  asks for 100 of type 1 and 50 of type 2. Product type 3 has no BOM entries, and the
  only line item of order 2 asks for 50 of it.
\<close>

definition bom_example_order :: order where
  "bom_example_order = \<lparr>o_id = 1, o_order_date = Some 0, o_deadline = timedelta 70\<rparr>"

definition empty_bom_example_order :: order where
  "empty_bom_example_order = \<lparr>o_id = 2, o_order_date = Some 0, o_deadline = timedelta 70\<rparr>"

definition empty_bom_example_line_item :: order_line_item where
  "empty_bom_example_line_item =
     \<lparr>li_id = 3, li_order_id = 2, li_horn_type_id = 3, li_quantity = 50\<rparr>"

definition bom_example_db :: database where
  "bom_example_db =
    \<lparr>components =
       [\<lparr>c_id = 1, c_current_inventory = 0, c_min_stock_level = 0, c_max_stock_level = 0,
         c_lead_time_days = 7, c_unit_cost = 2, c_minimum_order_quantity = 0\<rparr>],
     horn_types = [\<lparr>ht_id = 1\<rparr>, \<lparr>ht_id = 2\<rparr>, \<lparr>ht_id = 3\<rparr>],
     horn_type_components =
       [\<lparr>htc_id = 1, htc_horn_type_id = 1, htc_component_id = 1, htc_quantity_per_horn = 2\<rparr>,
        \<lparr>htc_id = 2, htc_horn_type_id = 2, htc_component_id = 1, htc_quantity_per_horn = 1\<rparr>],
     orders = [bom_example_order, empty_bom_example_order],
     order_line_items =
       [\<lparr>li_id = 1, li_order_id = 1, li_horn_type_id = 1, li_quantity = 100\<rparr>,
        \<lparr>li_id = 2, li_order_id = 1, li_horn_type_id = 2, li_quantity = 50\<rparr>,
        empty_bom_example_line_item],
     production_configs =
       [\<lparr>pc_daily_production_capacity = 4000, pc_working_days_per_week = 6,
         pc_max_inventory_days = 30, pc_safety_stock_days = 3\<rparr>],
     mrp_plans = [],
     inventory_transactions = []\<rparr>"

text \<open>
  An order of 200,000 units due in 70 days at five working days a week (50 working days)
  against a capacity of 3,000 units a day; an earlier plan of the order is on file.
\<close>

definition capacity_example_order :: order where
  "capacity_example_order = \<lparr>o_id = 1, o_order_date = Some 0, o_deadline = timedelta 70\<rparr>"

definition capacity_example_config :: production_config where
  "capacity_example_config =
     \<lparr>pc_daily_production_capacity = 3000, pc_working_days_per_week = 5,
      pc_max_inventory_days = 30, pc_safety_stock_days = 3\<rparr>"

definition capacity_example_old_plan :: mrp_plan where
  "capacity_example_old_plan =
     \<lparr>mp_id = 4, mp_order_id = 1, mp_component_id = 1, mp_total_required = 10,
      mp_current_inventory = 0, mp_net_requirement = 10, mp_order_quantity = 10,
      mp_order_date = 0, mp_expected_delivery = timedelta 7, mp_estimated_cost = 20,
      mp_status = ''ordered''\<rparr>"

definition capacity_example_db :: database where
  "capacity_example_db =
    \<lparr>components =
       [\<lparr>c_id = 1, c_current_inventory = 0, c_min_stock_level = 0, c_max_stock_level = 0,
         c_lead_time_days = 7, c_unit_cost = 2, c_minimum_order_quantity = 0\<rparr>],
     horn_types = [\<lparr>ht_id = 1\<rparr>],
     horn_type_components =
       [\<lparr>htc_id = 1, htc_horn_type_id = 1, htc_component_id = 1, htc_quantity_per_horn = 2\<rparr>],
     orders = [capacity_example_order],
     order_line_items =
       [\<lparr>li_id = 1, li_order_id = 1, li_horn_type_id = 1, li_quantity = 200000\<rparr>],
     production_configs = [capacity_example_config],
     mrp_plans = [capacity_example_old_plan],
     inventory_transactions = []\<rparr>"

text \<open>
  Two components stocked above their maximum stock level (150 and 300 on hand, maximum
  100 each); the order of 100 units needs 200 of the first and 100 of the second.
\<close>

definition overstock_example_db :: database where
  "overstock_example_db =
    \<lparr>components =
       [\<lparr>c_id = 1, c_current_inventory = 150, c_min_stock_level = 0, c_max_stock_level = 100,
         c_lead_time_days = 7, c_unit_cost = 2, c_minimum_order_quantity = 0\<rparr>,
        \<lparr>c_id = 2, c_current_inventory = 300, c_min_stock_level = 0, c_max_stock_level = 100,
         c_lead_time_days = 7, c_unit_cost = 2, c_minimum_order_quantity = 0\<rparr>],
     horn_types = [\<lparr>ht_id = 1\<rparr>],
     horn_type_components =
       [\<lparr>htc_id = 1, htc_horn_type_id = 1, htc_component_id = 1, htc_quantity_per_horn = 2\<rparr>,
        \<lparr>htc_id = 2, htc_horn_type_id = 1, htc_component_id = 2, htc_quantity_per_horn = 1\<rparr>],
     orders = [\<lparr>o_id = 1, o_order_date = Some 0, o_deadline = timedelta 70\<rparr>],
     order_line_items =
       [\<lparr>li_id = 1, li_order_id = 1, li_horn_type_id = 1, li_quantity = 100\<rparr>],
     production_configs =
       [\<lparr>pc_daily_production_capacity = 4000, pc_working_days_per_week = 6,
         pc_max_inventory_days = 30, pc_safety_stock_days = 3\<rparr>],
     mrp_plans = [],
     inventory_transactions = []\<rparr>"

text \<open>
  Two components with a minimum order quantity of 100 and nothing on hand, 150 of each
  required; the first has room for 120 only, the second for 500. Lead times are 7 and 14
  days, the safety-stock buffer is 3 days, the order is dated day 100.
\<close>

definition moq_example_order :: order where
  "moq_example_order =
     \<lparr>o_id = 1, o_order_date = Some (timedelta 100), o_deadline = timedelta 170\<rparr>"

definition moq_example_config :: production_config where
  "moq_example_config =
     \<lparr>pc_daily_production_capacity = 4000, pc_working_days_per_week = 6,
      pc_max_inventory_days = 30, pc_safety_stock_days = 3\<rparr>"

definition moq_example_db :: database where
  "moq_example_db =
    \<lparr>components =
       [\<lparr>c_id = 1, c_current_inventory = 0, c_min_stock_level = 0, c_max_stock_level = 120,
         c_lead_time_days = 7, c_unit_cost = 2, c_minimum_order_quantity = 100\<rparr>,
        \<lparr>c_id = 2, c_current_inventory = 0, c_min_stock_level = 0, c_max_stock_level = 500,
         c_lead_time_days = 14, c_unit_cost = 5, c_minimum_order_quantity = 100\<rparr>],
     horn_types = [\<lparr>ht_id = 1\<rparr>],
     horn_type_components =
       [\<lparr>htc_id = 1, htc_horn_type_id = 1, htc_component_id = 1, htc_quantity_per_horn = 3\<rparr>,
        \<lparr>htc_id = 2, htc_horn_type_id = 1, htc_component_id = 2, htc_quantity_per_horn = 3\<rparr>],
     orders = [moq_example_order],
     order_line_items =
       [\<lparr>li_id = 1, li_order_id = 1, li_horn_type_id = 1, li_quantity = 50\<rparr>],
     production_configs = [moq_example_config],
     mrp_plans = [],
     inventory_transactions = []\<rparr>"

text \<open>What the request of day 90 for that order answers and stores.\<close>

definition moq_example_summary :: summary where
  "moq_example_summary =
     \<lparr>sm_order_quantity = 50, sm_working_days = 60, sm_daily_production = 1,
      sm_production_start = timedelta 103, sm_total_components = 2,
      sm_components_to_order = 2, sm_total_estimated_cost = 1240\<rparr>"

definition moq_example_plan_1 :: mrp_plan where
  "moq_example_plan_1 =
     \<lparr>mp_id = 1, mp_order_id = 1, mp_component_id = 1, mp_total_required = 150,
      mp_current_inventory = 0, mp_net_requirement = 150, mp_order_quantity = 120,
      mp_order_date = timedelta 93, mp_expected_delivery = timedelta 100,
      mp_estimated_cost = 240, mp_status = ''planned''\<rparr>"

definition moq_example_plan_2 :: mrp_plan where
  "moq_example_plan_2 =
     \<lparr>mp_id = 2, mp_order_id = 1, mp_component_id = 2, mp_total_required = 150,
      mp_current_inventory = 0, mp_net_requirement = 150, mp_order_quantity = 200,
      mp_order_date = timedelta 90, mp_expected_delivery = timedelta 104,
      mp_estimated_cost = 1000, mp_status = ''planned''\<rparr>"

text \<open>A planned purchase of 500 units of a component with 20 on hand.\<close>

definition receipt_example_component :: component where
  "receipt_example_component =
     \<lparr>c_id = 1, c_current_inventory = 20, c_min_stock_level = 0, c_max_stock_level = 0,
      c_lead_time_days = 7, c_unit_cost = 2, c_minimum_order_quantity = 0\<rparr>"

definition receipt_example_plan :: mrp_plan where
  "receipt_example_plan =
     \<lparr>mp_id = 7, mp_order_id = 1, mp_component_id = 1, mp_total_required = 520,
      mp_current_inventory = 20, mp_net_requirement = 500, mp_order_quantity = 500,
      mp_order_date = 0, mp_expected_delivery = timedelta 7, mp_estimated_cost = 1000,
      mp_status = ''planned''\<rparr>"

definition receipt_example_db :: database where
  "receipt_example_db =
    \<lparr>components = [receipt_example_component],
     horn_types = [],
     horn_type_components = [],
     orders = [],
     order_line_items = [],
     production_configs = [],
     mrp_plans = [receipt_example_plan],
     inventory_transactions = []\<rparr>"

section \<open>Working-day calendar: the formula\<close>

lemma timedelta_days_timedelta: "timedelta_days (timedelta d) = d"
  by (simp add: timedelta_days_def timedelta_def)

lemma whole_days_between_forward:
  "start_date \<le> end_date \<Longrightarrow>
   whole_days_between start_date end_date = timedelta_days (end_date - start_date)"
  by (simp add: whole_days_between_def timedelta_days_def)

text \<open>
  Claim C8. For an end date after the start date and \<open>1 \<le> W \<le> 7\<close>,
  \<open>calculate_working_days\<close> returns \<open>full_weeks \<times> W + min(remainder, W)\<close>, where
  \<open>total_days\<close> is the whole (truncated) number of days between the two dates,
  \<open>full_weeks = total_days div 7\<close> and \<open>remainder = total_days mod 7\<close>. Seven days at
  six working days a week count 6 working days, three days count 3.
\<close>

theorem calculate_working_days_formula:
  "(start_date < end_date \<and> 1 \<le> W \<and> W \<le> 7 \<longrightarrow>
      calculate_working_days start_date end_date W = spec_working_days start_date end_date W
      \<and> spec_working_days start_date end_date W =
          (whole_days_between start_date end_date div 7) * W
            + min (whole_days_between start_date end_date mod 7) W)
   \<and> calculate_working_days start_date (start_date + timedelta 7) 6 = 6
   \<and> calculate_working_days start_date (start_date + timedelta 3) 6 = 3"
proof -
  have general: "calculate_working_days start_date end_date W
      = spec_working_days start_date end_date W" if "start_date < end_date"
    using that
    by (simp add: calculate_working_days_def spec_working_days_def
        whole_days_between_forward Let_def)
  have week: "calculate_working_days start_date (start_date + timedelta 7) 6 = 6"
    by (simp add: calculate_working_days_def timedelta_days_timedelta Let_def)
  have three: "calculate_working_days start_date (start_date + timedelta 3) 6 = 3"
    by (simp add: calculate_working_days_def timedelta_days_timedelta Let_def)
  show ?thesis
    using general week three by (simp add: spec_working_days_def Let_def)
qed

theorem calculate_working_days_formula_witness:
  "(0::int) < timedelta 10 + 3600000000 \<and> (1::int) \<le> 5 \<and> (5::int) \<le> 7
   \<and> calculate_working_days 0 (timedelta 10 + 3600000000) 5
       = spec_working_days 0 (timedelta 10 + 3600000000) 5
   \<and> spec_working_days 0 (timedelta 10 + 3600000000) 5 = 8"
  using calculate_working_days_formula [of 0 "timedelta 10 + 3600000000" 5]
  by (simp add: timedelta_def spec_working_days_def whole_days_between_def)

section \<open>Evaluation\<close>

lemmas route_defs =
  request_generate_mrp_def generate_mrp_def open_session_def session_commit_def
  session_remove_def

lemmas query_defs =
  get_order_def get_component_def get_mrp_plan_def line_items_def line_item_horn_type_def
  bom_components_def total_quantity_def get_mrp_plans_def

lemmas eval_defs =
  route_defs query_defs calculate_working_days_def timedelta_def timedelta_days_def
  plan_component_def defaultdict_get_def next_id_def Let_def

section \<open>BOM explosion\<close>

lemma defaultdict_get_Nil: "defaultdict_get [] k = 0"
  by (simp add: defaultdict_get_def)

lemma defaultdict_get_add:
  "defaultdict_get (defaultdict_add d k v) k' =
     defaultdict_get d k' + (if k' = k then v else 0)"
  by (induction d k v rule: defaultdict_add.induct) (auto simp: defaultdict_get_def)

lemma keys_defaultdict_add:
  "fst ` set (defaultdict_add d k v) = insert k (fst ` set d)"
  by (induction d k v rule: defaultdict_add.induct) auto


lemma defaultdict_get_explode_bom_items:
  "defaultdict_get (explode_bom_items li bom d) c =
     defaultdict_get d c + real_of_int (li_quantity li) * bom_quantity_per_unit bom c"
  by (induction li bom d rule: explode_bom_items.induct)
     (auto simp: defaultdict_get_add bom_quantity_per_unit_def algebra_simps)

lemma keys_explode_bom_items:
  "fst ` set (explode_bom_items li bom d) = fst ` set d \<union> htc_component_id ` set bom"
  by (induction li bom d rule: explode_bom_items.induct) (auto simp: keys_defaultdict_add)


lemma explode_line_items_step:
  "explode_line_items db (li # lis) d =
     explode_line_items db lis (explode_bom_items li (line_item_bom db li) d)"
  by (simp add: line_item_bom_def split: option.splits)

lemma defaultdict_get_explode_line_items:
  "defaultdict_get (explode_line_items db lis d) c =
     defaultdict_get d c + aggregate_requirement db lis c"
proof (induction lis arbitrary: d)
  case Nil
  then show ?case by (simp add: aggregate_requirement_def)
next
  case (Cons li lis)
  have "defaultdict_get (explode_line_items db (li # lis) d) c =
        defaultdict_get (explode_bom_items li (line_item_bom db li) d) c
          + aggregate_requirement db lis c"
    unfolding explode_line_items_step by (rule Cons.IH)
  then show ?case
    by (simp add: defaultdict_get_explode_bom_items aggregate_requirement_def)
qed

lemma keys_explode_line_items:
  "fst ` set (explode_line_items db lis d) =
     fst ` set d \<union> (\<Union>li\<in>set lis. htc_component_id ` set (line_item_bom db li))"
proof (induction lis arbitrary: d)
  case Nil
  then show ?case by simp
next
  case (Cons li lis)
  show ?case
    unfolding explode_line_items_step Cons.IH keys_explode_bom_items by auto
qed




section \<open>Plan generation: what a request leaves behind\<close>

lemma insert_plans_forget_id:
  "map (\<lambda>p. p\<lparr>mp_id := 0\<rparr>) (insert_plans n ps) = map (\<lambda>p. p\<lparr>mp_id := 0\<rparr>) ps"
  by (induction ps arbitrary: n) auto

lemma plan_component_keys:
  "mp_id (plan_component config production_start now order_id reqs c) = 0"
  "mp_order_id (plan_component config production_start now order_id reqs c) = order_id"
  "mp_component_id (plan_component config production_start now order_id reqs c) = c_id c"
  by (simp_all add: plan_component_def Let_def)

lemma filter_order_insert_plans:
  "filter (\<lambda>p. mp_order_id p = order_id)
     (insert_plans n (map (plan_component config production_start now order_id reqs) cs))
   = insert_plans n (map (plan_component config production_start now order_id reqs) cs)"
  by (induction cs arbitrary: n) (auto simp: plan_component_keys)

lemma request_generate_mrp_error:
  "request_generate_mrp order_id now db = (Inl e, db') \<Longrightarrow> db' = db"
  by (simp add: route_defs Let_def split: option.splits list.splits if_splits)

lemma request_generate_mrp_success:
  assumes "request_generate_mrp order_id now db = (Inr (sm, plans), db')"
  shows "\<exists>ord config rest.
           get_order db order_id = Some ord \<and> production_configs db = config # rest
         \<and> get_mrp_plans db' order_id = plans
         \<and> sm_production_start sm =
             (case o_order_date ord of None \<Rightarrow> now | Some d \<Rightarrow> d)
               + timedelta (pc_safety_stock_days config)
         \<and> map (\<lambda>p. p\<lparr>mp_id := 0\<rparr>) plans =
             map (plan_component config (sm_production_start sm) now order_id
                    (explode_line_items db (line_items db ord) []))
               (filter (\<lambda>c. c_id c \<in> fst ` set (explode_line_items db (line_items db ord) []))
                  (components db))"
  using assms
  by (auto simp: route_defs Let_def get_mrp_plans_def line_items_def total_quantity_def
      insert_plans_forget_id filter_order_insert_plans plan_component_keys o_def
      split: option.splits list.splits if_splits)

lemmas example_defs =
  bom_example_db_def bom_example_order_def empty_bom_example_order_def
  empty_bom_example_line_item_def capacity_example_db_def capacity_example_order_def
  capacity_example_config_def capacity_example_old_plan_def overstock_example_db_def
  moq_example_db_def moq_example_order_def moq_example_config_def
  moq_example_summary_def moq_example_plan_1_def moq_example_plan_2_def
  receipt_example_db_def receipt_example_component_def receipt_example_plan_def

section \<open>Plan generation: failures\<close>

lemma request_generate_mrp_empty_demand:
  assumes "get_order db order_id = Some ord" and "production_configs db \<noteq> []"
    and "explode_line_items db (line_items db ord) [] = []"
  shows "request_generate_mrp order_id now db = (Inl EmptyDemand, db)"
  using assms by (simp add: route_defs Let_def split: list.splits)


text \<open>
  The route deletes the plans of the order before it checks the working days and the
  capacity. In a failing request the deletion stays in the open transaction: the session
  the route returns sees no plan of the order, the committed database still holds it.
\<close>

lemma capacity_example_pending_delete:
  "mrp_plans (pending (snd (generate_mrp 1 0 (open_session capacity_example_db)))) = []
   \<and> mrp_plans (persisted (snd (generate_mrp 1 0 (open_session capacity_example_db))))
       = [capacity_example_old_plan]"
  by (simp add: example_defs eval_defs)

text \<open>
  Claim C4. Whenever the request answers with an error, the database it leaves behind is
  the database it found: no plan is added, and the plans of the order on file are the
  ones that were there. In particular an order whose only line item names a product type
  without BOM entries fails with \<open>EmptyDemand\<close> and changes nothing.
\<close>

theorem generate_mrp_all_or_nothing:
  "(request_generate_mrp order_id now db = (Inl e, db') \<longrightarrow>
      db' = db \<and> get_mrp_plans db' order_id = get_mrp_plans db order_id)
   \<and> (get_order db order_id = Some ord \<and> production_configs db \<noteq> []
        \<and> line_items db ord = [li] \<and> line_item_bom db li = [] \<longrightarrow>
      request_generate_mrp order_id now db = (Inl EmptyDemand, db))"
proof -
  have unchanged: "db' = db" if "request_generate_mrp order_id now db = (Inl e, db')"
    using that by (rule request_generate_mrp_error)
  have empty: "request_generate_mrp order_id now db = (Inl EmptyDemand, db)"
    if "get_order db order_id = Some ord" "production_configs db \<noteq> []"
      "line_items db ord = [li]" "line_item_bom db li = []"
  proof -
    have "explode_line_items db (line_items db ord) [] = []"
      unfolding that(3) explode_line_items_step that(4) by simp
    with that(1,2) show ?thesis by (rule request_generate_mrp_empty_demand)
  qed
  show ?thesis using unchanged empty by blast
qed

theorem generate_mrp_all_or_nothing_witness:
  "request_generate_mrp 1 0 capacity_example_db
     = (Inl (CapacityExceeded 4000 3000 67 50), capacity_example_db)
   \<and> get_mrp_plans capacity_example_db 1 = [capacity_example_old_plan]
   \<and> get_order bom_example_db 2 = Some empty_bom_example_order
   \<and> production_configs bom_example_db \<noteq> []
   \<and> line_items bom_example_db empty_bom_example_order = [empty_bom_example_line_item]
   \<and> line_item_bom bom_example_db empty_bom_example_line_item = []
   \<and> request_generate_mrp 2 0 bom_example_db = (Inl EmptyDemand, bom_example_db)"
  using generate_mrp_all_or_nothing [of 1 0 capacity_example_db
      "CapacityExceeded 4000 3000 67 50" capacity_example_db]
    generate_mrp_all_or_nothing [of 2 0 bom_example_db _ _ empty_bom_example_order
      empty_bom_example_line_item]
  by (simp add: example_defs eval_defs line_item_bom_def)



section \<open>Plan generation: the plans of a successful request\<close>

lemma plan_component_net_requirement:
  "mp_net_requirement (plan_component config production_start now order_id reqs c) =
     max 0 (mp_total_required (plan_component config production_start now order_id reqs c)
            - mp_current_inventory (plan_component config production_start now order_id reqs c))"
  "mp_total_required (plan_component config production_start now order_id reqs c) =
     defaultdict_get reqs (c_id c)"
  "mp_current_inventory (plan_component config production_start now order_id reqs c) =
     c_current_inventory c"
  by (simp_all add: plan_component_def Let_def)

lemma plan_component_order_quantity:
  "mp_order_quantity (plan_component config production_start now order_id reqs c) =
     (let net = mp_net_requirement (plan_component config production_start now order_id reqs c);
          lot = (if net > 0 then
                   (if c_minimum_order_quantity c > 0
                    then real_of_int \<lceil>net / c_minimum_order_quantity c\<rceil>
                           * c_minimum_order_quantity c
                    else net)
                 else 0)
      in if c_max_stock_level c > 0 \<and> lot > c_max_stock_level c - c_current_inventory c
         then c_max_stock_level c - c_current_inventory c else lot)"
  by (simp add: plan_component_def Let_def)

lemma plan_component_dates:
  "mp_order_date (plan_component config production_start now order_id reqs c) =
     (if production_start - timedelta (c_lead_time_days c + pc_safety_stock_days config) < now
      then now
      else production_start - timedelta (c_lead_time_days c + pc_safety_stock_days config))"
  "mp_expected_delivery (plan_component config production_start now order_id reqs c) =
     mp_order_date (plan_component config production_start now order_id reqs c)
       + timedelta (c_lead_time_days c)"
  by (simp_all add: plan_component_def Let_def)

lemma persisted_plan_component:
  assumes "request_generate_mrp order_id now db = (Inr (sm, plans), db')"
    and "p \<in> set (get_mrp_plans db' order_id)"
  shows "\<exists>ord config rest c.
           get_order db order_id = Some ord \<and> production_configs db = config # rest
         \<and> sm_production_start sm =
             (case o_order_date ord of None \<Rightarrow> now | Some d \<Rightarrow> d)
               + timedelta (pc_safety_stock_days config)
         \<and> c \<in> set (components db)
         \<and> c_id c \<in> fst ` set (explode_line_items db (line_items db ord) [])
         \<and> p\<lparr>mp_id := 0\<rparr> =
             plan_component config (sm_production_start sm) now order_id
               (explode_line_items db (line_items db ord) []) c"
proof -
  from request_generate_mrp_success [OF assms(1)]
  obtain ord config rest where
    found: "get_order db order_id = Some ord" "production_configs db = config # rest"
    and plans: "get_mrp_plans db' order_id = plans"
    and start: "sm_production_start sm =
             (case o_order_date ord of None \<Rightarrow> now | Some d \<Rightarrow> d)
               + timedelta (pc_safety_stock_days config)"
    and rows: "map (\<lambda>p. p\<lparr>mp_id := 0\<rparr>) plans =
             map (plan_component config (sm_production_start sm) now order_id
                    (explode_line_items db (line_items db ord) []))
               (filter (\<lambda>c. c_id c \<in> fst ` set (explode_line_items db (line_items db ord) []))
                  (components db))"
    by blast
  from assms(2) plans have "p\<lparr>mp_id := 0\<rparr> \<in> set (map (\<lambda>p. p\<lparr>mp_id := 0\<rparr>) plans)"
    by auto
  with rows obtain c where "c \<in> set (components db)"
    "c_id c \<in> fst ` set (explode_line_items db (line_items db ord) [])"
    "p\<lparr>mp_id := 0\<rparr> =
       plan_component config (sm_production_start sm) now order_id
         (explode_line_items db (line_items db ord) []) c"
    by auto
  with found start show ?thesis by blast
qed

lemma moq_example_result:
  "request_generate_mrp 1 (timedelta 90) moq_example_db =
     (Inr (moq_example_summary, [moq_example_plan_1, moq_example_plan_2]),
      moq_example_db\<lparr>mrp_plans := [moq_example_plan_1, moq_example_plan_2]\<rparr>)"
  by (simp add: example_defs eval_defs)

lemma overstock_example_plans:
  "map mp_component_id (get_mrp_plans (snd (request_generate_mrp 1 0 overstock_example_db)) 1)
     = [1, 2]"
  "map mp_total_required (get_mrp_plans (snd (request_generate_mrp 1 0 overstock_example_db)) 1)
     = [200, 100]"
  "map mp_current_inventory
     (get_mrp_plans (snd (request_generate_mrp 1 0 overstock_example_db)) 1) = [150, 300]"
  "map mp_net_requirement (get_mrp_plans (snd (request_generate_mrp 1 0 overstock_example_db)) 1)
     = [50, 0]"
  "map mp_order_quantity (get_mrp_plans (snd (request_generate_mrp 1 0 overstock_example_db)) 1)
     = [- 50, - 200]"
  "mp_order_quantity (hd (get_mrp_plans (snd (request_generate_mrp 1 0 overstock_example_db)) 1))
     = - 50"
  by (simp_all add: example_defs eval_defs)

lemma generate_mrp_order_quantity_bounds:
  assumes "request_generate_mrp order_id now db = (Inr (sm, plans), db')"
    and "p \<in> set (get_mrp_plans db' order_id)"
  shows "\<exists>c \<in> set (components db). c_id c = mp_component_id p
           \<and> mp_current_inventory p = c_current_inventory c
           \<and> (0 < c_max_stock_level c \<longrightarrow>
                mp_order_quantity p \<le> max 0 (c_max_stock_level c - c_current_inventory c))
           \<and> (c_max_stock_level c \<le> 0 \<or> c_current_inventory c \<le> c_max_stock_level c \<longrightarrow>
                0 \<le> mp_order_quantity p)"
proof -
  from persisted_plan_component [OF assms]
  obtain config ps reqs c where c: "c \<in> set (components db)"
    and p: "p\<lparr>mp_id := 0\<rparr> = plan_component config ps now order_id reqs c"
    by blast
  let ?q = "plan_component config ps now order_id reqs c"
  have fields: "mp_component_id p = mp_component_id ?q"
    "mp_current_inventory p = mp_current_inventory ?q"
    "mp_order_quantity p = mp_order_quantity ?q"
    by (simp_all flip: p)
  have net: "0 \<le> mp_net_requirement ?q"
    by (simp add: plan_component_net_requirement(1))
  have lot: "0 \<le> real_of_int \<lceil>mp_net_requirement ?q / c_minimum_order_quantity c\<rceil>
                 * c_minimum_order_quantity c"
    if "0 < c_minimum_order_quantity c"
  proof -
    from that net have "- 1 < mp_net_requirement ?q / c_minimum_order_quantity c"
      by (simp add: order.strict_trans2 [of "- 1" 0])
    then have "0 \<le> \<lceil>mp_net_requirement ?q / c_minimum_order_quantity c\<rceil>"
      by (simp add: zero_le_ceiling)
    with that show ?thesis by simp
  qed
  have "mp_order_quantity ?q \<le> max 0 (c_max_stock_level c - c_current_inventory c)"
    if "0 < c_max_stock_level c"
    using that by (auto simp: plan_component_order_quantity Let_def le_max_iff_disj)
  moreover have "0 \<le> mp_order_quantity ?q"
    if "c_max_stock_level c \<le> 0 \<or> c_current_inventory c \<le> c_max_stock_level c"
    using that net lot by (auto simp: plan_component_order_quantity Let_def)
  ultimately show ?thesis
    using c by (auto simp: fields plan_component_keys plan_component_net_requirement)
qed

text \<open>
  Claim C1. The cap at the headroom \<open>max_stock_level - current_inventory\<close> has no floor at
  zero in the code. The order quantity stays at or below \<open>max(0, headroom)\<close>, but for the
  two components stocked above their maximum (150 and 300 on hand, maximum 100) the
  persisted plans order -50 and -200: the order quantity is negative, not floored at 0.
\<close>

theorem generate_mrp_negative_order_quantity:
  "map c_max_stock_level (components overstock_example_db) = [100, 100]
   \<and> map c_current_inventory (components overstock_example_db) = [150, 300]
   \<and> map mp_component_id
        (get_mrp_plans (snd (request_generate_mrp 1 0 overstock_example_db)) 1) = [1, 2]
   \<and> map mp_order_quantity
        (get_mrp_plans (snd (request_generate_mrp 1 0 overstock_example_db)) 1) = [- 50, - 200]
   \<and> mp_order_quantity
        (hd (get_mrp_plans (snd (request_generate_mrp 1 0 overstock_example_db)) 1)) < 0"
proof -
  have stock: "map c_max_stock_level (components overstock_example_db) = [100, 100]"
    "map c_current_inventory (components overstock_example_db) = [150, 300]"
    by (simp_all add: overstock_example_db_def)
  show ?thesis
    using stock overstock_example_plans(1,5,6) by simp
qed

lemma generate_mrp_one_plan_per_component:
  assumes "request_generate_mrp order_id now db = (Inr (sm, plans), db')"
    and "get_order db order_id = Some ord"
    and "distinct (map c_id (components db))"
    and "fst ` set (explode_line_items db (line_items db ord) []) \<subseteq> c_id ` set (components db)"
  shows "get_mrp_plans db' order_id = plans"
    and "distinct (map mp_component_id plans)"
    and "set (map mp_component_id plans) =
           (\<Union>li\<in>set (line_items db ord). htc_component_id ` set (line_item_bom db li))"
    and "\<forall>p \<in> set plans.
           mp_net_requirement p = max 0 (mp_total_required p - mp_current_inventory p)
         \<and> mp_total_required p = aggregate_requirement db (line_items db ord) (mp_component_id p)"
proof -
  let ?reqs = "explode_line_items db (line_items db ord) []"
  from request_generate_mrp_success [OF assms(1)] assms(2)
  obtain config where plans: "get_mrp_plans db' order_id = plans"
    and rows: "map (\<lambda>p. p\<lparr>mp_id := 0\<rparr>) plans =
             map (plan_component config (sm_production_start sm) now order_id ?reqs)
               (filter (\<lambda>c. c_id c \<in> fst ` set ?reqs) (components db))"
    by auto
  have "map mp_component_id (map (\<lambda>p. p\<lparr>mp_id := 0\<rparr>) plans) = map mp_component_id plans"
    by simp
  then have ids: "map mp_component_id plans =
      map c_id (filter (\<lambda>c. c_id c \<in> fst ` set ?reqs) (components db))"
    unfolding rows by (simp add: plan_component_keys o_def)
  show "get_mrp_plans db' order_id = plans" by (rule plans)
  show "distinct (map mp_component_id plans)"
    unfolding ids using assms(3) by (rule distinct_map_filter)
  have "set (map mp_component_id plans) = fst ` set ?reqs"
  proof
    show "set (map mp_component_id plans) \<subseteq> fst ` set ?reqs"
      unfolding ids by auto
    show "fst ` set ?reqs \<subseteq> set (map mp_component_id plans)"
    proof
      fix k assume k: "k \<in> fst ` set ?reqs"
      with assms(4) obtain c where "c \<in> set (components db)" "c_id c = k"
        by auto
      with k show "k \<in> set (map mp_component_id plans)"
        unfolding ids by auto
    qed
  qed
  then show "set (map mp_component_id plans) =
           (\<Union>li\<in>set (line_items db ord). htc_component_id ` set (line_item_bom db li))"
    by (simp add: keys_explode_line_items)
  show "\<forall>p \<in> set plans.
           mp_net_requirement p = max 0 (mp_total_required p - mp_current_inventory p)
         \<and> mp_total_required p = aggregate_requirement db (line_items db ord) (mp_component_id p)"
  proof
    fix p assume "p \<in> set plans"
    then have "p\<lparr>mp_id := 0\<rparr> \<in> set (map (\<lambda>p. p\<lparr>mp_id := 0\<rparr>) plans)" by auto
    then obtain c where
      p: "p\<lparr>mp_id := 0\<rparr> = plan_component config (sm_production_start sm) now order_id ?reqs c"
      unfolding rows by auto
    let ?q = "plan_component config (sm_production_start sm) now order_id ?reqs c"
    have fields: "mp_net_requirement p = mp_net_requirement ?q"
      "mp_total_required p = mp_total_required ?q"
      "mp_current_inventory p = mp_current_inventory ?q"
      "mp_component_id p = mp_component_id ?q"
      by (simp_all flip: p)
    show "mp_net_requirement p = max 0 (mp_total_required p - mp_current_inventory p)
         \<and> mp_total_required p = aggregate_requirement db (line_items db ord) (mp_component_id p)"
      unfolding fields
      by (simp add: plan_component_net_requirement plan_component_keys
          defaultdict_get_explode_line_items defaultdict_get_Nil)
  qed
qed


section \<open>Lot sizing and back-scheduling\<close>




text \<open>
  Claim C7. In a successful request, with \<open>O\<close> the order's date (the current instant when
  the order has none), \<open>S\<close> the configured safety-stock days and \<open>L\<close> the lead time of the
  plan's component: the production start is \<open>O + S\<close> days, the plan's order date is the
  production start minus \<open>L + S\<close> days, replaced by the current instant when that lies in
  the past, and the expected delivery is the order date plus \<open>L\<close> days. Every plan is
  scheduled from the one production start with its own component's lead time.
\<close>

theorem generate_mrp_back_schedule:
  assumes "request_generate_mrp order_id now db = (Inr (sm, plans), db')"
    and "get_order db order_id = Some ord"
    and "production_configs db = config # rest"
    and "p \<in> set (get_mrp_plans db' order_id)"
  shows "sm_production_start sm =
           (case o_order_date ord of None \<Rightarrow> now | Some d \<Rightarrow> d)
             + timedelta (pc_safety_stock_days config)
       \<and> (\<exists>c \<in> set (components db). c_id c = mp_component_id p
            \<and> mp_order_date p =
                (if sm_production_start sm
                      - timedelta (c_lead_time_days c + pc_safety_stock_days config) < now
                 then now
                 else sm_production_start sm
                      - timedelta (c_lead_time_days c + pc_safety_stock_days config))
            \<and> mp_expected_delivery p = mp_order_date p + timedelta (c_lead_time_days c))"
proof -
  from persisted_plan_component [OF assms(1,4)] assms(2,3)
  obtain reqs c where c: "c \<in> set (components db)"
    and start: "sm_production_start sm =
           (case o_order_date ord of None \<Rightarrow> now | Some d \<Rightarrow> d)
             + timedelta (pc_safety_stock_days config)"
    and p: "p\<lparr>mp_id := 0\<rparr> = plan_component config (sm_production_start sm) now order_id reqs c"
    by auto
  let ?q = "plan_component config (sm_production_start sm) now order_id reqs c"
  have fields: "mp_component_id p = mp_component_id ?q"
    "mp_order_date p = mp_order_date ?q"
    "mp_expected_delivery p = mp_expected_delivery ?q"
    by (simp_all flip: p)
  have "c_id c = mp_component_id p"
    unfolding fields by (simp add: plan_component_keys)
  moreover have "mp_order_date p =
      (if sm_production_start sm
            - timedelta (c_lead_time_days c + pc_safety_stock_days config) < now
       then now
       else sm_production_start sm
            - timedelta (c_lead_time_days c + pc_safety_stock_days config))"
    unfolding fields by (rule plan_component_dates(1))
  moreover have "mp_expected_delivery p = mp_order_date p + timedelta (c_lead_time_days c)"
    unfolding fields by (rule plan_component_dates(2))
  ultimately show ?thesis using c start by blast
qed

theorem generate_mrp_back_schedule_witness:
  "request_generate_mrp 1 (timedelta 90) moq_example_db =
     (Inr (moq_example_summary, [moq_example_plan_1, moq_example_plan_2]),
      moq_example_db\<lparr>mrp_plans := [moq_example_plan_1, moq_example_plan_2]\<rparr>)
   \<and> get_order moq_example_db 1 = Some moq_example_order
   \<and> production_configs moq_example_db = moq_example_config # []
   \<and> moq_example_plan_1
       \<in> set (get_mrp_plans
                (moq_example_db\<lparr>mrp_plans := [moq_example_plan_1, moq_example_plan_2]\<rparr>) 1)
   \<and> sm_production_start moq_example_summary = timedelta 100 + timedelta 3
   \<and> mp_order_date moq_example_plan_1 = timedelta 103 - timedelta (7 + 3)
   \<and> mp_expected_delivery moq_example_plan_1 = timedelta 93 + timedelta 7
   \<and> mp_order_date moq_example_plan_2 = timedelta 90
   \<and> timedelta 103 - timedelta (14 + 3) < timedelta 90
   \<and> mp_expected_delivery moq_example_plan_2 = timedelta 90 + timedelta 14"
  using moq_example_result
    generate_mrp_back_schedule [OF moq_example_result, of moq_example_order
      moq_example_config "[]" moq_example_plan_1]
  by (simp add: example_defs get_mrp_plans_def get_order_def timedelta_def)

section \<open>Status update and inventory receipt\<close>












end
